theory Spec2Isabelle
  imports Main
begin

section \<open>Data of the monitor (smart\_monitor.py)\<close>

text \<open>
  The embedding follows \<^verbatim>\<open>src/network-deployment/scripts/monitoring/smart_monitor.py\<close>.
  Conventions:
  \<^item> Python integers are \<open>int\<close>; the clock is a logical clock in whole seconds (\<open>nat\<close>):
    \<^verbatim>\<open>time.sleep(d)\<close> advances it by \<open>d\<close>, every other statement takes no time.
  \<^item> The operating system is an explicit environment (\<open>world\<close>): what \<^verbatim>\<open>os.stat\<close>
    answers at each instant, when the \<^verbatim>\<open>is_running\<close> flag is cleared by a signal,
    how the external command ends, what the directory walk lists.
  \<^item> An exception is a value: \<^verbatim>\<open>os.stat\<close> returns \<open>Inl e\<close> for an \<^verbatim>\<open>OSError\<close>.
  \<^item> Calls of the logger are not modelled: they change no state of the monitor.
  \<^item> The configuration options are read through a typed record; the options have the
    types of the built-in defaults, and the sampling interval is not negative.
\<close>

datatype job_status = Pending | Processing | Completed | Failed

text \<open>\<^verbatim>\<open>ProcessingJob\<close>; the field \<^verbatim>\<open>size\<close> is \<open>size_bytes\<close> here.\<close>

record ProcessingJob =
  file_path :: string
  size_bytes :: int
  detected_time :: nat
  last_modified :: int
  hash_md5 :: "string option"
  status :: job_status

text \<open>The keys of \<^verbatim>\<open>self.config\<close> that the monitor reads.\<close>

record config =
  input_directory :: string
  output_directory :: string
  log_file :: string
  state_file :: string
  video_extensions :: "string list"
  min_file_size_mb :: int
  stability_check_interval :: nat
  stability_check_count :: int
  max_processing_time :: int
  check_interval :: nat
  enable_hash_check :: bool
  cleanup_days :: int

text \<open>\<^verbatim>\<open>self.stats\<close>, a dictionary with four keys.\<close>

record stats_dict =
  files_processed :: int
  files_failed :: int
  total_processing_time :: int
  last_activity :: "nat option"

text \<open>
  The state of a \<^verbatim>\<open>JavSPMonitor\<close>. The Python set \<^verbatim>\<open>completed_files\<close> is a list
  without duplicates; only membership is observed.
\<close>

record monitor =
  config :: config
  processing_queue :: "ProcessingJob list"
  completed_files :: "string list"
  current_job :: "ProcessingJob option"
  stats :: stats_dict

section \<open>The environment\<close>

datatype os_error = FileNotFound | PermissionDenied | OtherOSError

record stat_result =
  st_size :: int
  st_mtime :: int

text \<open>
  How one run of the external command \<^verbatim>\<open>javsp -i input_directory\<close> ends, as
  \<^verbatim>\<open>process_file\<close> sees it: \<^verbatim>\<open>subprocess.Popen\<close> raises; or reading the output
  of the command raises after a duration (the output is read as text, and a line that
  cannot be decoded raises in \<^verbatim>\<open>readline\<close>, whatever the return code of the command);
  or the output is read to its end and the process exits with a return code after a
  duration; or the process never exits (the read loop of \<^verbatim>\<open>process_file\<close> then
  never ends).
\<close>

datatype proc_outcome = PopenRaises | OutputRaises nat | Exits int nat | NeverExits

type_synonym bytes = "char list"

record world =
  os_stat :: "nat \<Rightarrow> string \<Rightarrow> os_error + stat_result"
  is_running :: "nat \<Rightarrow> bool"
  javsp :: "nat \<Rightarrow> proc_outcome"
  read_file :: "string \<Rightarrow> os_error + bytes"
  md5_hexdigest :: "bytes \<Rightarrow> string"
  suffix_lower :: "string \<Rightarrow> string"
  fromtimestamp :: "int \<Rightarrow> int option"
  rglob :: "nat \<Rightarrow> (string \<times> bool) list option"

text \<open>
  \<open>os_stat w t p\<close> is the answer of \<^verbatim>\<open>os.stat(p)\<close> at time \<open>t\<close>;
  \<open>is_running w t\<close> is the flag \<^verbatim>\<open>self.is_running\<close> at time \<open>t\<close> (a signal handler
  clears it); \<open>javsp w t\<close> is the end of the command started at time \<open>t\<close>;
  \<open>read_file w p\<close> is the content of \<open>p\<close> read in binary mode, or the error that opening
  or reading it raises; \<open>md5_hexdigest\<close> is \<^verbatim>\<open>hashlib.md5(b).hexdigest()\<close> and
  \<open>suffix_lower p\<close> is \<^verbatim>\<open>Path(p).suffix.lower()\<close>, both library functions;
  \<open>fromtimestamp s\<close> is \<^verbatim>\<open>datetime.fromtimestamp(s)\<close>, a library function that
  raises for a time stamp outside its range (\<open>None\<close>);
  \<open>rglob w t\<close> is the walk \<^verbatim>\<open>input_dir.rglob('*')\<close> at time \<open>t\<close>, each path with
  the answer of \<^verbatim>\<open>is_file()\<close>, or \<open>None\<close> when the input directory does not exist
  (a walk that raises is not modelled: it ends the pass of the main loop in the handler
  of \<^verbatim>\<open>run\<close>, before anything is enqueued).
\<close>

section \<open>The stability gate\<close>

text \<open>
  \<^verbatim>\<open>is_file_stable\<close>: two samples of \<^verbatim>\<open>os.stat\<close>, one sleep between them. The
  result is paired with the time at which the call returns. An \<^verbatim>\<open>OSError\<close> of the
  first sample returns before the sleep.
\<close>

definition is_file_stable :: "config \<Rightarrow> world \<Rightarrow> string \<Rightarrow> nat \<Rightarrow> bool \<times> nat" where
  "is_file_stable cfg w p t =
     (case os_stat w t p of
        Inl e \<Rightarrow> (False, t)
      | Inr stat1 \<Rightarrow>
          (let t' = t + stability_check_interval cfg in
           case os_stat w t' p of
             Inl e \<Rightarrow> (False, t')
           | Inr stat2 \<Rightarrow>
               (st_size stat1 = st_size stat2 \<and>
                st_mtime stat1 = st_mtime stat2 \<and>
                st_size stat1 \<ge> min_file_size_mb cfg * 1024 * 1024, t')))"

text \<open>
  The loop of \<^verbatim>\<open>process_file\<close> that waits for the file:
  \<^verbatim>\<open>
  stability_checks = 0
  while stability_checks < self.config['stability_check_count']:
      if self.is_file_stable(file_path): stability_checks += 1
      else: stability_checks = 0
      if not self.is_running: return False
  \<close>
  The loop may run forever, so it takes fuel: one unit for each pass. \<open>None\<close> means
  that the fuel ran out. \<open>Ready\<close> is the normal end of the loop, \<open>Stopped\<close> the
  \<^verbatim>\<open>return False\<close> inside it.
\<close>

datatype wait_result = Ready | Stopped

fun stability_loop ::
  "nat \<Rightarrow> config \<Rightarrow> world \<Rightarrow> string \<Rightarrow> int \<Rightarrow> nat \<Rightarrow> (wait_result \<times> nat) option" where
  "stability_loop 0 cfg w p checks t =
     (if checks < stability_check_count cfg then None else Some (Ready, t))"
| "stability_loop (Suc fuel) cfg w p checks t =
     (if checks < stability_check_count cfg then
        (case is_file_stable cfg w p t of
           (ok, t') \<Rightarrow>
             (let checks' = (if ok then checks + 1 else 0) in
              if \<not> is_running w t' then Some (Stopped, t')
              else stability_loop fuel cfg w p checks' t'))
      else Some (Ready, t))"

section \<open>The fingerprint\<close>

text \<open>
  \<^verbatim>\<open>calculate_file_hash\<close> reads an open file through a position. \<open>f_read n content pos\<close>
  is \<^verbatim>\<open>f.read(n)\<close> at position \<open>pos\<close> of a file holding \<open>content\<close>: at most \<open>n\<close>
  bytes, fewer at the end of the file. The file does not change while it is read.
\<close>

definition f_read :: "nat \<Rightarrow> bytes \<Rightarrow> nat \<Rightarrow> bytes" where
  "f_read n content pos = take n (drop pos content)"

text \<open>
  The first loop, with the bytes given to \<^verbatim>\<open>hash_md5.update\<close> so far in \<open>fed\<close>:
  \<^verbatim>\<open>
  while total_read < max_read:
      chunk = f.read(min(chunk_size, max_read - total_read))
      if not chunk: break
      hash_md5.update(chunk)
      total_read += len(chunk)
  \<close>
  It returns the position of the file and the bytes fed.
\<close>

function read_head :: "nat \<Rightarrow> nat \<Rightarrow> bytes \<Rightarrow> nat \<Rightarrow> nat \<Rightarrow> bytes \<Rightarrow> nat \<times> bytes" where
  "read_head chunk_size max_read content pos total_read fed =
     (if total_read < max_read then
        (let chunk = f_read (min chunk_size (max_read - total_read)) content pos in
         if chunk = [] then (pos, fed)
         else read_head chunk_size max_read content (pos + length chunk)
                (total_read + length chunk) (fed @ chunk))
      else (pos, fed))"
  by pat_completeness auto
termination
  by (relation "measure (\<lambda>(cs, mr, c, pos, tr, fed). mr - tr)") (auto simp: f_read_def)

declare read_head.simps [simp del]

text \<open>
  The second loop, after the seek:
  \<^verbatim>\<open>
  while True:
      chunk = f.read(chunk_size)
      if not chunk: break
      hash_md5.update(chunk)
  \<close>
\<close>

function read_tail :: "nat \<Rightarrow> bytes \<Rightarrow> nat \<Rightarrow> bytes \<Rightarrow> bytes" where
  "read_tail chunk_size content pos fed =
     (let chunk = f_read chunk_size content pos in
      if chunk = [] then fed
      else read_tail chunk_size content (pos + length chunk) (fed @ chunk))"
  by pat_completeness auto
termination
  by (relation "measure (\<lambda>(cs, c, pos, fed). length c - pos)") (auto simp: f_read_def)

declare read_tail.simps [simp del]

text \<open>
  The bytes that reach the MD5 state for a file holding \<open>content\<close>, with the two local
  constants of the source as parameters. \<^verbatim>\<open>f.seek(-min(max_read, size), 2)\<close> sets
  the position to \<open>size - min max_read size\<close>; \<^verbatim>\<open>os.path.getsize\<close> is the length
  of the content.
\<close>

definition hashed_bytes :: "nat \<Rightarrow> nat \<Rightarrow> bytes \<Rightarrow> bytes" where
  "hashed_bytes chunk_size max_read content =
     (case read_head chunk_size max_read content 0 0 [] of
        (pos, fed) \<Rightarrow>
          read_tail chunk_size content
            (length content - min max_read (length content)) fed)"

definition calculate_file_hash :: "config \<Rightarrow> world \<Rightarrow> string \<Rightarrow> string option" where
  "calculate_file_hash cfg w p =
     (if \<not> enable_hash_check cfg then None
      else case read_file w p of
             Inl e \<Rightarrow> None
           | Inr content \<Rightarrow>
               Some (md5_hexdigest w (hashed_bytes 8192 (1024 * 1024) content)))"

section \<open>The worker\<close>

text \<open>
  The two ends of \<^verbatim>\<open>process_file\<close>. The failure branch is the \<^verbatim>\<open>else\<close> of the
  return code test and the \<^verbatim>\<open>except Exception\<close> handler, which do the same to the
  monitor; the handler runs when starting the command raises and when reading its
  output raises. Both run before \<^verbatim>\<open>finally: self.current_job = None\<close>.
\<close>

definition record_failure :: "monitor \<Rightarrow> monitor" where
  "record_failure m =
     m\<lparr>stats := (stats m)\<lparr>files_failed := files_failed (stats m) + 1\<rparr>,
       current_job := None\<rparr>"

definition record_success :: "monitor \<Rightarrow> string \<Rightarrow> nat \<Rightarrow> monitor" where
  "record_success m p process_time =
     m\<lparr>stats := (stats m)\<lparr>files_processed := files_processed (stats m) + 1,
                            total_processing_time :=
                              total_processing_time (stats m) + int process_time\<rparr>,
       completed_files := List.insert p (completed_files m),
       current_job := None\<rparr>"

text \<open>
  The first statements of \<^verbatim>\<open>process_file\<close>:
  \<^verbatim>\<open>job.status = "processing"; self.current_job = job\<close>.
  The job is an object shared with the queue and with \<^verbatim>\<open>self.current_job\<close>; the
  model passes the job along and the caller writes it back to its place in the queue.
\<close>

definition begin_processing :: "monitor \<Rightarrow> ProcessingJob \<Rightarrow> monitor \<times> ProcessingJob" where
  "begin_processing m job =
     (let job1 = job\<lparr>status := Processing\<rparr> in (m\<lparr>current_job := Some job1\<rparr>, job1))"

text \<open>
  \<^verbatim>\<open>process_file(job)\<close> started at time \<open>t\<close>. The result is the monitor, the job,
  the returned boolean and the time of the return; \<open>None\<close> when the call does not
  return (the wait ran out of fuel, or the external command never exits).
\<close>

definition process_file ::
  "nat \<Rightarrow> world \<Rightarrow> monitor \<Rightarrow> ProcessingJob \<Rightarrow> nat \<Rightarrow>
     (monitor \<times> ProcessingJob \<times> bool \<times> nat) option" where
  "process_file fuel w m job t =
     (case begin_processing m job of
        (m1, job1) \<Rightarrow>
          (case stability_loop fuel (config m) w (file_path job) 0 t of
             None \<Rightarrow> None
           | Some (Stopped, t1) \<Rightarrow> Some (m1\<lparr>current_job := None\<rparr>, job1, False, t1)
           | Some (Ready, t1) \<Rightarrow>
               (let job2 = (if enable_hash_check (config m)
                            then job1\<lparr>hash_md5 :=
                                   calculate_file_hash (config m) w (file_path job)\<rparr>
                            else job1)
                in case javsp w t1 of
                     NeverExits \<Rightarrow> None
                   | PopenRaises \<Rightarrow>
                       Some (record_failure m1, job2\<lparr>status := Failed\<rparr>, False, t1)
                   | OutputRaises elapsed \<Rightarrow>
                       Some (record_failure m1, job2\<lparr>status := Failed\<rparr>, False,
                             t1 + elapsed)
                   | Exits returncode process_time \<Rightarrow>
                       (if returncode = 0
                        then Some (record_success m1 (file_path job) process_time,
                                   job2\<lparr>status := Completed\<rparr>, True, t1 + process_time)
                        else Some (record_failure m1, job2\<lparr>status := Failed\<rparr>, False,
                                   t1 + process_time)))))"

text \<open>
  One pass of the loop of \<^verbatim>\<open>process_queue\<close>:
  \<^verbatim>\<open>
  pending_jobs = [job for job in self.processing_queue if job.status == "pending"]
  if pending_jobs:
      job = pending_jobs[0]
      self.process_file(job)
      self.processing_queue = [j for j in self.processing_queue if j.status == "pending"]
  else:
      time.sleep(5)
  \<close>
  \<open>pending_jobs[0]\<close> is the first pending job of the queue; \<open>first_pending\<close> is its
  index, the identity of the object.
\<close>

definition pending_jobs :: "ProcessingJob list \<Rightarrow> ProcessingJob list" where
  "pending_jobs queue = filter (\<lambda>job. status job = Pending) queue"

fun first_pending :: "ProcessingJob list \<Rightarrow> nat option" where
  "first_pending [] = None"
| "first_pending (job # queue) =
     (if status job = Pending then Some 0 else map_option Suc (first_pending queue))"

definition process_queue_iteration ::
  "nat \<Rightarrow> world \<Rightarrow> monitor \<Rightarrow> nat \<Rightarrow> (monitor \<times> nat) option" where
  "process_queue_iteration fuel w m t =
     (case first_pending (processing_queue m) of
        None \<Rightarrow> Some (m, t + 5)
      | Some i \<Rightarrow>
          (case process_file fuel w m (processing_queue m ! i) t of
             None \<Rightarrow> None
           | Some (m', job', r, t') \<Rightarrow>
               Some (m'\<lparr>processing_queue :=
                          pending_jobs ((processing_queue m')[i := job'])\<rparr>, t')))"

text \<open>\<^verbatim>\<open>process_queue\<close>: at most \<open>n\<close> passes of \<^verbatim>\<open>while self.is_running\<close>.\<close>

fun process_queue :: "nat \<Rightarrow> nat \<Rightarrow> world \<Rightarrow> monitor \<Rightarrow> nat \<Rightarrow> (monitor \<times> nat) option" where
  "process_queue 0 fuel w m t = (if is_running w t then None else Some (m, t))"
| "process_queue (Suc n) fuel w m t =
     (if is_running w t then
        (case process_queue_iteration fuel w m t of
           None \<Rightarrow> None
         | Some (m', t') \<Rightarrow> process_queue n fuel w m' t')
      else Some (m, t))"

section \<open>The scanner and the queue\<close>

definition is_video_file :: "config \<Rightarrow> world \<Rightarrow> string \<Rightarrow> bool" where
  "is_video_file cfg w p = (suffix_lower w p \<in> set (video_extensions cfg))"

definition in_queue :: "ProcessingJob list \<Rightarrow> string \<Rightarrow> bool" where
  "in_queue queue p = list_ex (\<lambda>job. file_path job = p) queue"

definition scan_for_new_files :: "world \<Rightarrow> monitor \<Rightarrow> nat \<Rightarrow> string list" where
  "scan_for_new_files w m t =
     (case rglob w t of
        None \<Rightarrow> []
      | Some entries \<Rightarrow>
          map fst
            (filter (\<lambda>(p, is_file).
                       is_file \<and> is_video_file (config m) w p \<and>
                       p \<notin> set (completed_files m) \<and>
                       \<not> in_queue (processing_queue m) p)
               entries))"

text \<open>
  \<^verbatim>\<open>add_to_queue\<close>: the job is built inside the \<^verbatim>\<open>try\<close> and appended, whatever
  the queue holds. When \<^verbatim>\<open>os.stat\<close> raises, or \<^verbatim>\<open>datetime.fromtimestamp\<close>
  raises on the modification time while the job is built, the handler logs the error
  and the queue is unchanged. The method returns nothing.
\<close>

definition add_to_queue :: "world \<Rightarrow> monitor \<Rightarrow> string \<Rightarrow> nat \<Rightarrow> monitor" where
  "add_to_queue w m p t =
     (case os_stat w t p of
        Inl e \<Rightarrow> m
      | Inr stat \<Rightarrow>
          (case fromtimestamp w (st_mtime stat) of
             None \<Rightarrow> m
           | Some modified \<Rightarrow>
               m\<lparr>processing_queue := processing_queue m @
                   [\<lparr>file_path = p, size_bytes = st_size stat, detected_time = t,
                     last_modified = modified, hash_md5 = None, status = Pending\<rparr>]\<rparr>))"


text \<open>
  The first statements of the body of the loop of \<^verbatim>\<open>run\<close>:
  \<^verbatim>\<open>
  new_files = self.scan_for_new_files()
  for file_path in new_files: self.add_to_queue(file_path)
  if new_files or self.processing_queue:
      self.stats['last_activity'] = datetime.now().isoformat()
  \<close>
\<close>

definition scan_and_enqueue :: "world \<Rightarrow> monitor \<Rightarrow> nat \<Rightarrow> monitor" where
  "scan_and_enqueue w m t =
     (let new_files = scan_for_new_files w m t;
          m' = foldl (\<lambda>m p. add_to_queue w m p t) m new_files
      in if new_files \<noteq> [] \<or> processing_queue m' \<noteq> []
         then m'\<lparr>stats := (stats m')\<lparr>last_activity := Some t\<rparr>\<rparr>
         else m')"




section \<open>The state file\<close>

text \<open>
  The state of a fresh \<^verbatim>\<open>JavSPMonitor\<close>, as \<^verbatim>\<open>__init__\<close> leaves it.
\<close>

definition init_monitor :: "config \<Rightarrow> monitor" where
  "init_monitor cfg =
     \<lparr>config = cfg, processing_queue = [], completed_files = [], current_job = None,
      stats = \<lparr>files_processed = 0, files_failed = 0, total_processing_time = 0,
               last_activity = None\<rparr>\<rparr>"

text \<open>
  The document of the state file, at the types \<^verbatim>\<open>save_state\<close> writes. The keys
  that \<^verbatim>\<open>load_state\<close> reads with a default (\<^verbatim>\<open>state.get('stats', {})\<close>,
  \<^verbatim>\<open>state.get('completed_files', [])\<close>) may be absent, and so may each key of the
  \<^verbatim>\<open>stats\<close> object. \<^verbatim>\<open>json.dump\<close> followed by \<^verbatim>\<open>json.load\<close> is taken to
  give back the document written.
\<close>

record stats_entry =
  e_files_processed :: "int option"
  e_files_failed :: "int option"
  e_total_processing_time :: "int option"
  e_last_activity :: "nat option option"

record state_document =
  doc_stats :: "stats_entry option"
  doc_completed_files :: "string list option"
  doc_queue_length :: nat
  doc_current_job :: "ProcessingJob option"
  doc_timestamp :: nat

datatype state_file = NoStateFile | CorruptStateFile | StateDocument state_document




text \<open>\<^verbatim>\<open>self.stats.update(entry)\<close>: each key of the entry replaces the value held.\<close>

definition update_stats :: "stats_dict \<Rightarrow> stats_entry \<Rightarrow> stats_dict" where
  "update_stats s e =
     \<lparr>files_processed = (case e_files_processed e of None \<Rightarrow> files_processed s | Some v \<Rightarrow> v),
      files_failed = (case e_files_failed e of None \<Rightarrow> files_failed s | Some v \<Rightarrow> v),
      total_processing_time =
        (case e_total_processing_time e of None \<Rightarrow> total_processing_time s | Some v \<Rightarrow> v),
      last_activity = (case e_last_activity e of None \<Rightarrow> last_activity s | Some v \<Rightarrow> v)\<rparr>"

definition empty_entry :: stats_entry where
  "empty_entry =
     \<lparr>e_files_processed = None, e_files_failed = None, e_total_processing_time = None,
      e_last_activity = None\<rparr>"

text \<open>
  \<^verbatim>\<open>load_state\<close>: without a state file nothing happens; when reading it raises, the
  handler logs the exception and the monitor is unchanged.
\<close>

definition load_state :: "monitor \<Rightarrow> state_file \<Rightarrow> monitor" where
  "load_state m file =
     (case file of
        NoStateFile \<Rightarrow> m
      | CorruptStateFile \<Rightarrow> m
      | StateDocument state \<Rightarrow>
          m\<lparr>stats := update_stats (stats m)
                        (case doc_stats state of None \<Rightarrow> empty_entry | Some e \<Rightarrow> e),
            completed_files :=
              fold List.insert
                (case doc_completed_files state of None \<Rightarrow> [] | Some ps \<Rightarrow> ps)
                (completed_files m)\<rparr>)"

section \<open>The configuration file\<close>

text \<open>
  The values \<^verbatim>\<open>json.load\<close> returns (numbers are integers here), and a dictionary
  as a list of keys and values; \<open>map_of\<close> looks a key up.
\<close>

datatype json =
  JNull | JBool bool | JInt int | JString string | JArray "json list"
  | JObject "(string \<times> json) list"

fun dict_set :: "'k \<Rightarrow> 'v \<Rightarrow> ('k \<times> 'v) list \<Rightarrow> ('k \<times> 'v) list" where
  "dict_set k v [] = [(k, v)]"
| "dict_set k v ((k', v') # d) =
     (if k' = k then (k, v) # d else (k', v') # dict_set k v d)"

text \<open>\<^verbatim>\<open>d.update(u)\<close> for a dictionary \<open>u\<close>: \<^verbatim>\<open>d[k] = v\<close> for each item of \<open>u\<close>.\<close>

fun dict_update :: "('k \<times> 'v) list \<Rightarrow> ('k \<times> 'v) list \<Rightarrow> ('k \<times> 'v) list" where
  "dict_update d [] = d"
| "dict_update d ((k, v) # u) = dict_update (dict_set k v d) u"

definition default_config :: "(string \<times> json) list" where
  "default_config =
     [(''input_directory'', JString ''/app/input''),
      (''output_directory'', JString ''/app/output''),
      (''log_file'', JString ''/app/logs/monitor.log''),
      (''state_file'', JString ''/app/logs/monitor_state.json''),
      (''video_extensions'',
         JArray (map JString
           [''.mp4'', ''.mkv'', ''.avi'', ''.mov'', ''.wmv'',
            ''.flv'', ''.m4v'', ''.m2ts'', ''.ts'', ''.vob'',
            ''.iso'', ''.rmvb'', ''.rm'', ''.3gp'', ''.f4v'',
            ''.webm'', ''.strm'', ''.mpg'', ''.mpeg''])),
      (''min_file_size_mb'', JInt 200),
      (''stability_check_interval'', JInt 10),
      (''stability_check_count'', JInt 3),
      (''max_processing_time'', JInt 3600),
      (''check_interval'', JInt 60),
      (''enable_hash_check'', JBool True),
      (''cleanup_days'', JInt 7)]"

text \<open>
  What \<^verbatim>\<open>load_config\<close> finds at \<^verbatim>\<open>config_path\<close>: no file, a file whose reading
  or parsing raises, or a document. The document is a JSON object, given as the
  dictionary that \<^verbatim>\<open>json.load\<close> returns: its items in their order, each key
  once. A document that is not an object is outside this model.
\<close>

datatype config_file = NoConfigFile | ConfigLoadFails | ConfigDocument "(string \<times> json) list"

text \<open>
  \<^verbatim>\<open>load_config\<close> of \<^verbatim>\<open>smart_monitor.py\<close>: the merge step is
  \<^verbatim>\<open>default_config.update(user_config)\<close> on the built-in defaults. The result is
  \<^verbatim>\<open>self.config\<close>; the directories that \<^verbatim>\<open>load_config\<close> then creates are
  not modelled.
\<close>

definition load_config :: "config_file \<Rightarrow> (string \<times> json) list" where
  "load_config file =
     (case file of
        NoConfigFile \<Rightarrow> default_config
      | ConfigLoadFails \<Rightarrow> default_config
      | ConfigDocument user_config \<Rightarrow> dict_update default_config user_config)"

text \<open>
  The two other loaders of the repository, \<^verbatim>\<open>HealthChecker.load_config\<close>
  (\<^verbatim>\<open>health_check.py\<close>) and \<^verbatim>\<open>SystemMonitor.load_config\<close>
  (\<^verbatim>\<open>system_monitor.py\<close>), merge with the same method \<^verbatim>\<open>_merge_config\<close>, here
  \<open>merge_config\<close>:
  \<^verbatim>\<open>
  def _merge_config(self, default, user):
      for key, value in user.items():
          if key in default and isinstance(default[key], dict) and isinstance(value, dict):
              self._merge_config(default[key], value)
          else:
              default[key] = value
  \<close>
  The method changes \<^verbatim>\<open>default\<close> in place; the model returns the dictionary.
\<close>

fun merge_config ::
  "(string \<times> json) list \<Rightarrow> (string \<times> json) list \<Rightarrow> (string \<times> json) list" where
  "merge_config defaults [] = defaults"
| "merge_config defaults ((key, JObject items) # user) =
     merge_config
       (case map_of defaults key of
          Some (JObject nested) \<Rightarrow> dict_set key (JObject (merge_config nested items)) defaults
        | _ \<Rightarrow> dict_set key (JObject items) defaults)
       user"
| "merge_config defaults ((key, v) # user) =
     merge_config (dict_set key v defaults) user"

text \<open>
  The value that one pass of the loop of \<^verbatim>\<open>_merge_config\<close> leaves at the key of
  an item, from the value that the defaults held there (if any) and the value of the
  item.
\<close>

definition merged_value :: "json option \<Rightarrow> json \<Rightarrow> json" where
  "merged_value held v =
     (case held of
        Some (JObject nested) \<Rightarrow>
          (case v of JObject items \<Rightarrow> JObject (merge_config nested items) | _ \<Rightarrow> v)
      | _ \<Rightarrow> v)"

definition health_default_config :: "(string \<times> json) list" where
  "health_default_config =
     [(''health_checks'', JObject
         [(''enabled'', JBool True),
          (''interval'', JInt 300),
          (''components'', JObject
             [(''docker'', JObject [(''enabled'', JBool True), (''timeout'', JInt 30)]),
              (''filesystem'', JObject [(''enabled'', JBool True), (''timeout'', JInt 10)]),
              (''network'', JObject [(''enabled'', JBool True), (''timeout'', JInt 15)]),
              (''application'', JObject [(''enabled'', JBool True), (''timeout'', JInt 20)])])]),
      (''maintenance'', JObject
         [(''enabled'', JBool True),
          (''daily_time'', JString ''03:00''),
          (''weekly_day'', JString ''sunday''),
          (''tasks'', JObject
             [(''cleanup_logs'', JBool True),
              (''optimize_database'', JBool True),
              (''check_disk_space'', JBool True),
              (''update_stats'', JBool True)])]),
      (''alerting'', JObject
         [(''enabled'', JBool True),
          (''critical_immediate'', JBool True),
          (''warning_threshold'', JInt 3),
          (''recovery_notification'', JBool True)]),
      (''reporting'', JObject
         [(''enabled'', JBool True),
          (''daily_report'', JBool True),
          (''weekly_summary'', JBool True)])]"

text \<open>\<^verbatim>\<open>HealthChecker.load_config\<close>, with the same three cases of the file.\<close>

definition health_load_config :: "config_file \<Rightarrow> (string \<times> json) list" where
  "health_load_config file =
     (case file of
        NoConfigFile \<Rightarrow> health_default_config
      | ConfigLoadFails \<Rightarrow> health_default_config
      | ConfigDocument user_config \<Rightarrow> merge_config health_default_config user_config)"

section \<open>Concrete scenarios\<close>

text \<open>
  A configuration with a sampling interval of 5 seconds and 3 checks, without
  fingerprints, and an environment with five files:
  \<^item> \<^verbatim>\<open>a.mp4\<close> and \<^verbatim>\<open>b.mp4\<close>, 500 MB files copied in 10 seconds, at 50 MB a second;
  \<^item> \<^verbatim>\<open>growing.mp4\<close>, which grows by a byte every second, for ever;
  \<^item> \<^verbatim>\<open>gone.mp4\<close>, which is removed at time 3;
  \<^item> \<^verbatim>\<open>future.mp4\<close>, whose modification time, \<open>10\<^sup>1\<^sup>2\<close> seconds, is beyond the
    year 9999, where \<^verbatim>\<open>datetime.fromtimestamp\<close> raises.
  The external command takes 120 seconds and exits with the given return code; the
  suffix of a path is its last four characters.
\<close>

definition scenario_config :: config where
  "scenario_config =
     \<lparr>input_directory = ''/app/input'', output_directory = ''/app/output'',
      log_file = ''/app/logs/monitor.log'', state_file = ''/app/logs/monitor_state.json'',
      video_extensions = [''.mp4'', ''.mkv''], min_file_size_mb = 200,
      stability_check_interval = 5, stability_check_count = 3,
      max_processing_time = 3600, check_interval = 60, enable_hash_check = False,
      cleanup_days = 7\<rparr>"

definition copied_file :: "nat \<Rightarrow> stat_result" where
  "copied_file t =
     \<lparr>st_size = (if t < 10 then int t * 52428800 else 524288000),
      st_mtime = int (min t 10)\<rparr>"

definition scenario_stat :: "nat \<Rightarrow> string \<Rightarrow> os_error + stat_result" where
  "scenario_stat t p =
     (if p = ''/app/input/a.mp4'' \<or> p = ''/app/input/b.mp4'' then Inr (copied_file t)
      else if p = ''/app/input/growing.mp4''
        then Inr \<lparr>st_size = 300000000 + int t, st_mtime = int t\<rparr>
      else if p = ''/app/input/gone.mp4'' \<and> t < 3 then Inr (copied_file 10)
      else if p = ''/app/input/future.mp4''
        then Inr \<lparr>st_size = 524288000, st_mtime = 1000000000000\<rparr>
      else Inl FileNotFound)"

definition scenario_world :: "int \<Rightarrow> world" where
  "scenario_world returncode =
     \<lparr>os_stat = scenario_stat,
      is_running = (\<lambda>t. True),
      javsp = (\<lambda>t. Exits returncode 120),
      read_file = (\<lambda>p. Inl PermissionDenied),
      md5_hexdigest = (\<lambda>b. []),
      suffix_lower = (\<lambda>p. drop (length p - 4) p),
      fromtimestamp = (\<lambda>s. if 0 \<le> s \<and> s < 253402300800 then Some s else None),
      rglob = (\<lambda>t. Some [(''/app/input/a.mp4'', True), (''/app/input/b.mp4'', True),
                          (''/app/input/notes.txt'', True), (''/app/input/sub'', False)])\<rparr>"

definition scenario_job :: "string \<Rightarrow> ProcessingJob" where
  "scenario_job p =
     \<lparr>file_path = p, size_bytes = 524288000, detected_time = 0, last_modified = 10,
      hash_md5 = None, status = Pending\<rparr>"

text \<open>
  The same environment with a command that exits with 0 but prints, after 30 seconds, a
  line that cannot be decoded.
\<close>

definition undecodable_world :: world where
  "undecodable_world = (scenario_world 0)\<lparr>javsp := (\<lambda>t. OutputRaises 30)\<rparr>"

text \<open>A monitor whose queue holds the pending jobs of \<^verbatim>\<open>a.mp4\<close> and \<^verbatim>\<open>b.mp4\<close>.\<close>

definition two_jobs_monitor :: monitor where
  "two_jobs_monitor =
     (init_monitor scenario_config)
       \<lparr>processing_queue :=
          [scenario_job ''/app/input/a.mp4'', scenario_job ''/app/input/b.mp4'']\<rparr>"

text \<open>
  An environment for the fingerprint, with fingerprints enabled: \<^verbatim>\<open>a.mp4\<close> and
  \<^verbatim>\<open>b.mp4\<close> hold the same first and last megabyte around one different byte, and
  \<^verbatim>\<open>small.mp4\<close> holds three bytes. The digest is replaced by the identity, which
  has no collisions.
\<close>

definition fingerprint_config :: config where
  "fingerprint_config = scenario_config\<lparr>enable_hash_check := True\<rparr>"

definition fingerprint_world :: world where
  "fingerprint_world =
     (scenario_world 0)
       \<lparr>read_file :=
          (\<lambda>p. if p = ''/app/input/a.mp4''
                 then Inr (replicate 1048576 (CHR ''a'') @ ''x'' @ replicate 1048576 (CHR ''b''))
               else if p = ''/app/input/b.mp4''
                 then Inr (replicate 1048576 (CHR ''a'') @ ''y'' @ replicate 1048576 (CHR ''b''))
               else if p = ''/app/input/small.mp4'' then Inr ''abc''
               else Inl FileNotFound),
        md5_hexdigest := (\<lambda>b. b)\<rparr>"

section \<open>The momentary check\<close>

lemma is_file_stable_first_error:
  "os_stat w t p = Inl e \<Longrightarrow> is_file_stable cfg w p t = (False, t)"
  by (simp add: is_file_stable_def)

lemma is_file_stable_second_error:
  "os_stat w t p = Inr s1 \<Longrightarrow> os_stat w (t + stability_check_interval cfg) p = Inl e \<Longrightarrow>
   is_file_stable cfg w p t = (False, t + stability_check_interval cfg)"
  by (simp add: is_file_stable_def)

lemma is_file_stable_both:
  "os_stat w t p = Inr s1 \<Longrightarrow> os_stat w (t + stability_check_interval cfg) p = Inr s2 \<Longrightarrow>
   is_file_stable cfg w p t =
     (st_size s1 = st_size s2 \<and> st_mtime s1 = st_mtime s2 \<and>
      min_file_size_mb cfg * 1024 * 1024 \<le> st_size s1, t + stability_check_interval cfg)"
  by (simp add: is_file_stable_def)

lemma is_file_stable_True:
  "fst (is_file_stable cfg w p t) \<Longrightarrow>
   \<exists>s1 s2. os_stat w t p = Inr s1 \<and> os_stat w (t + stability_check_interval cfg) p = Inr s2 \<and>
     st_size s1 = st_size s2 \<and> st_mtime s1 = st_mtime s2 \<and>
     min_file_size_mb cfg * 1024 * 1024 \<le> st_size s1 \<and>
     snd (is_file_stable cfg w p t) = t + stability_check_interval cfg"
  by (auto simp: is_file_stable_def Let_def split: sum.splits)

text \<open>
  C5. One momentary check takes two samples, one sampling interval apart. When both
  samples succeed, it returns true exactly when the size and the modification time are
  the same in both and the size is at least the configured minimum, and it returns one
  interval after it was called. When a sample fails with an error of the filesystem
  (the file is gone, or permission is denied), it returns false: the function has no
  other outcome.
\<close>

theorem is_file_stable_momentary_check:
  "(os_stat w t p = Inr s1 \<and> os_stat w (t + stability_check_interval cfg) p = Inr s2 \<longrightarrow>
      is_file_stable cfg w p t =
        (st_size s1 = st_size s2 \<and> st_mtime s1 = st_mtime s2 \<and>
         min_file_size_mb cfg * 1024 * 1024 \<le> st_size s1,
         t + stability_check_interval cfg)) \<and>
   (os_stat w t p = Inl e \<longrightarrow> is_file_stable cfg w p t = (False, t)) \<and>
   (os_stat w t p = Inr s1 \<and> os_stat w (t + stability_check_interval cfg) p = Inl e \<longrightarrow>
      is_file_stable cfg w p t = (False, t + stability_check_interval cfg))"
  by (simp add: is_file_stable_first_error is_file_stable_second_error is_file_stable_both)

theorem is_file_stable_momentary_check_witness:
  "is_file_stable scenario_config (scenario_world 0) ''/app/input/a.mp4'' 10 = (True, 15) \<and>
   is_file_stable scenario_config (scenario_world 0) ''/app/input/a.mp4'' 7 = (False, 12) \<and>
   is_file_stable scenario_config (scenario_world 0) ''/app/input/none.mp4'' 0 = (False, 0) \<and>
   is_file_stable scenario_config (scenario_world 0) ''/app/input/gone.mp4'' 0 = (False, 5)"
  using
    is_file_stable_momentary_check [of "scenario_world 0" 10 "''/app/input/a.mp4''"
      "copied_file 10" scenario_config "copied_file 15" FileNotFound]
    is_file_stable_momentary_check [of "scenario_world 0" 7 "''/app/input/a.mp4''"
      "copied_file 7" scenario_config "copied_file 12" FileNotFound]
    is_file_stable_momentary_check [of "scenario_world 0" 0 "''/app/input/none.mp4''"
      "copied_file 0" scenario_config "copied_file 0" FileNotFound]
    is_file_stable_momentary_check [of "scenario_world 0" 0 "''/app/input/gone.mp4''"
      "copied_file 10" scenario_config "copied_file 0" FileNotFound]
  by (simp add: scenario_world_def scenario_stat_def scenario_config_def copied_file_def)

section \<open>The wait for stability\<close>

lemma loop_zero_never_ready:
  assumes "0 < stability_check_count cfg"
    and "\<And>t. \<not> fst (is_file_stable cfg w p t)"
  shows "stability_loop fuel cfg w p 0 t \<noteq> Some (Ready, t')"
  using assms
proof (induction fuel arbitrary: t)
  case 0
  then show ?case by simp
next
  case (Suc fuel)
  obtain ok t1 where c: "is_file_stable cfg w p t = (ok, t1)" by (cases "is_file_stable cfg w p t")
  with Suc.prems(2)[of t] have "\<not> ok" by simp
  with Suc c show ?case by (simp add: Let_def)
qed








lemma growing_check_fails:
  assumes "\<forall>t s1 s2. os_stat w t p = Inr s1 \<longrightarrow>
             os_stat w (t + stability_check_interval cfg) p = Inr s2 \<longrightarrow>
             st_size s1 < st_size s2"
  shows "\<not> fst (is_file_stable cfg w p t)"
proof
  assume "fst (is_file_stable cfg w p t)"
  from is_file_stable_True[OF this] obtain s1 s2 where
    "os_stat w t p = Inr s1" "os_stat w (t + stability_check_interval cfg) p = Inr s2"
    "st_size s1 = st_size s2" by blast
  with assms show False by force
qed

lemma failed_check_resets:
  assumes "\<not> fst (is_file_stable cfg w p t)" and "c < stability_check_count cfg"
    and "is_running w (snd (is_file_stable cfg w p t))"
  shows "stability_loop (Suc fuel) cfg w p c t =
         stability_loop fuel cfg w p 0 (snd (is_file_stable cfg w p t))"
  using assms by (cases "is_file_stable cfg w p t") (simp add: Let_def)

text \<open>
  C2. A file whose size grows across every sampling interval is never declared ready.
  With at least one check required (\<open>0 < stability_check_count\<close>; the loop does not
  run at all otherwise): every momentary check of such a file fails; a failed check
  puts the counter of consecutive successes back to zero, whatever it was; and the wait
  never ends normally, whatever the fuel.
\<close>

theorem growing_file_never_ready:
  assumes "0 < stability_check_count cfg"
    and "\<forall>t s1 s2. os_stat w t p = Inr s1 \<longrightarrow>
             os_stat w (t + stability_check_interval cfg) p = Inr s2 \<longrightarrow>
             st_size s1 < st_size s2"
  shows "\<not> fst (is_file_stable cfg w p t) \<and>
         (c < stability_check_count cfg \<and> is_running w (snd (is_file_stable cfg w p t)) \<longrightarrow>
            stability_loop (Suc fuel) cfg w p c t =
            stability_loop fuel cfg w p 0 (snd (is_file_stable cfg w p t))) \<and>
         stability_loop fuel cfg w p 0 t \<noteq> Some (Ready, t')"
proof -
  have f: "\<And>t. \<not> fst (is_file_stable cfg w p t)"
    by (rule growing_check_fails[OF assms(2)])
  show ?thesis
    using f[of t] failed_check_resets[OF f[of t], of c fuel]
      loop_zero_never_ready[OF assms(1) f, of fuel t t']
    by blast
qed

theorem growing_file_never_ready_witness:
  "\<not> fst (is_file_stable scenario_config (scenario_world 0) ''/app/input/growing.mp4'' 0) \<and>
   stability_loop 8 scenario_config (scenario_world 0) ''/app/input/growing.mp4'' 2 0 =
   stability_loop 7 scenario_config (scenario_world 0) ''/app/input/growing.mp4'' 0 5 \<and>
   stability_loop 7 scenario_config (scenario_world 0) ''/app/input/growing.mp4'' 0 0
     \<noteq> Some (Ready, 35)"
proof -
  have pos: "0 < stability_check_count scenario_config"
    by (simp add: scenario_config_def)
  have grows: "\<forall>t s1 s2. os_stat (scenario_world 0) t ''/app/input/growing.mp4'' = Inr s1 \<longrightarrow>
      os_stat (scenario_world 0) (t + stability_check_interval scenario_config)
        ''/app/input/growing.mp4'' = Inr s2 \<longrightarrow> st_size s1 < st_size s2"
    by (auto simp: scenario_world_def scenario_stat_def scenario_config_def)
  have snd5: "snd (is_file_stable scenario_config (scenario_world 0)
      ''/app/input/growing.mp4'' 0) = 5"
    by (simp add: is_file_stable_def scenario_world_def scenario_stat_def scenario_config_def)
  have c: "(2::int) < stability_check_count scenario_config"
    by (simp add: scenario_config_def)
  have r: "is_running (scenario_world 0) 5" by (simp add: scenario_world_def)
  from growing_file_never_ready [OF pos grows, of 0 2 7 35] snd5 c r
  show ?thesis by (simp del: stability_loop.simps)
qed




text \<open>The run of the scenario: checks at 0 and 5 fail, checks at 10, 15 and 20 succeed.\<close>

lemma scenario_a_run:
  "\<exists>m' job'. process_file 5 (scenario_world 0) (init_monitor scenario_config)
       (scenario_job ''/app/input/a.mp4'') 0 = Some (m', job', True, 145) \<and>
     status job' = Completed \<and> completed_files m' = [''/app/input/a.mp4''] \<and>
     files_processed (stats m') = 1 \<and> total_processing_time (stats m') = 120"
  by (simp add: process_file_def begin_processing_def Let_def scenario_world_def
      scenario_stat_def scenario_config_def copied_file_def scenario_job_def init_monitor_def
      is_file_stable_def record_success_def eval_nat_numeral)


section \<open>The fingerprint reads the two ends of the file\<close>

lemma take_split_chunk:
  assumes "k \<le> n"
  shows "take k xs @ take (n - length (take k xs)) (drop (length (take k xs)) xs) = take n xs"
proof -
  let ?l = "length (take k xs)"
  have l: "?l \<le> n" using assms by simp
  have "take k xs = take ?l xs"
    by (cases "k \<le> length xs") (simp_all add: min_def)
  then have "take k xs @ take (n - ?l) (drop ?l xs) = take ?l xs @ take (n - ?l) (drop ?l xs)"
    by simp
  also have "\<dots> = take (?l + (n - ?l)) xs" by (simp only: take_add)
  also have "\<dots> = take n xs" using l by simp
  finally show ?thesis .
qed

lemma read_head_fed:
  "0 < chunk_size \<Longrightarrow>
   snd (read_head chunk_size max_read content pos total_read fed) =
     fed @ take (max_read - total_read) (drop pos content)"
proof (induction chunk_size max_read content pos total_read fed rule: read_head.induct)
  case (1 chunk_size max_read content pos total_read fed)
  let ?k = "min chunk_size (max_read - total_read)"
  let ?chunk = "f_read ?k content pos"
  show ?case
  proof (cases "total_read < max_read")
    case False
    then show ?thesis by (subst read_head.simps) simp
  next
    case lt: True
    show ?thesis
    proof (cases "?chunk = []")
      case True
      with lt "1.prems" have "drop pos content = []"
        by (auto simp: f_read_def)
      with lt True show ?thesis by (subst read_head.simps) simp
    next
      case False
      have k: "?k \<le> max_read - total_read" by simp
      have "snd (read_head chunk_size max_read content pos total_read fed) =
            snd (read_head chunk_size max_read content (pos + length ?chunk)
                   (total_read + length ?chunk) (fed @ ?chunk))"
        using lt False by (subst read_head.simps) (simp add: Let_def)
      also have "\<dots> = (fed @ ?chunk) @
          take (max_read - (total_read + length ?chunk)) (drop (pos + length ?chunk) content)"
        using "1.IH"[OF lt refl False "1.prems"] .
      also have "\<dots> = fed @ take (max_read - total_read) (drop pos content)"
        using take_split_chunk[OF k, of "drop pos content"]
        by (simp add: f_read_def add.commute)
      finally show ?thesis .
    qed
  qed
qed

lemma read_tail_fed:
  "0 < chunk_size \<Longrightarrow> read_tail chunk_size content pos fed = fed @ drop pos content"
proof (induction chunk_size content pos fed rule: read_tail.induct)
  case (1 chunk_size content pos fed)
  let ?chunk = "f_read chunk_size content pos"
  show ?case
  proof (cases "?chunk = []")
    case True
    with "1.prems" have "drop pos content = []" by (auto simp: f_read_def)
    with True show ?thesis by (subst read_tail.simps) simp
  next
    case False
    have "read_tail chunk_size content pos fed =
          read_tail chunk_size content (pos + length ?chunk) (fed @ ?chunk)"
      using False by (subst read_tail.simps) (simp add: Let_def)
    also have "\<dots> = (fed @ ?chunk) @ drop (pos + length ?chunk) content"
      using "1.IH"[OF refl False "1.prems"] .
    also have "\<dots> = fed @ drop pos content"
    proof -
      let ?xs = "drop pos content"
      have "drop (length (take chunk_size ?xs)) ?xs = drop chunk_size ?xs"
        by (cases "chunk_size \<le> length ?xs") (simp_all add: min_def)
      moreover have "drop (pos + length (take chunk_size ?xs)) content =
            drop (length (take chunk_size ?xs)) ?xs"
        by (simp only: drop_drop add.commute)
      ultimately have "take chunk_size ?xs @
            drop (pos + length (take chunk_size ?xs)) content = ?xs"
        by (simp only: append_take_drop_id)
      then show ?thesis by (simp add: f_read_def)
    qed
    finally show ?thesis .
  qed
qed

lemma hashed_bytes_eq:
  "0 < chunk_size \<Longrightarrow>
   hashed_bytes chunk_size max_read content =
     take max_read content @ drop (length content - min max_read (length content)) content"
  using read_head_fed[of chunk_size max_read content 0 0 "[]"]
  by (cases "read_head chunk_size max_read content 0 0 []")
     (simp add: hashed_bytes_def read_tail_fed)

lemma hashed_bytes_middle:
  assumes "0 < chunk_size" and "length a = max_read" and "length b = max_read"
  shows "hashed_bytes chunk_size max_read (a @ mid @ b) = a @ b"
  using assms by (simp add: hashed_bytes_eq)


text \<open>The two loops on a small file, with chunks of 2 bytes and a limit of 3 bytes.\<close>

lemma hashed_bytes_small_run: "hashed_bytes 2 3 ''abcdefgh'' = ''abcfgh''"
  by (simp add: hashed_bytes_def read_head.simps read_tail.simps f_read_def)

text \<open>
  C10. The fingerprint is not a hash of the whole content: with fingerprints enabled
  and a file that can be read, it is the digest of the first megabyte of the content
  (all of it when the file is shorter) followed by its last megabyte (all of it again
  when the file is shorter). Two files that hold the same first megabyte and the same
  last megabyte around different middle bytes get the same fingerprint. With
  fingerprints disabled, or when opening or reading the file raises, there is no
  fingerprint: the function returns \<open>None\<close> and never raises.
\<close>

theorem fingerprint_reads_head_and_tail:
  "calculate_file_hash cfg w p =
     (if enable_hash_check cfg then
        (case read_file w p of
           Inl e \<Rightarrow> None
         | Inr content \<Rightarrow>
             Some (md5_hexdigest w
               (take (1024 * 1024) content @
                drop (length content - min (1024 * 1024) (length content)) content)))
      else None) \<and>
   (enable_hash_check cfg \<and> read_file w p = Inr (a @ mid @ b) \<and>
    read_file w p' = Inr (a @ mid' @ b) \<and> length a = 1024 * 1024 \<and> length b = 1024 * 1024 \<longrightarrow>
      calculate_file_hash cfg w p = Some (md5_hexdigest w (a @ b)) \<and>
      calculate_file_hash cfg w p' = calculate_file_hash cfg w p)"
proof -
  have eq: "hashed_bytes 8192 (1024 * 1024) content =
      take (1024 * 1024) content @
      drop (length content - min (1024 * 1024) (length content)) content" for content
    by (rule hashed_bytes_eq) simp
  have mid: "hashed_bytes 8192 (1024 * 1024) (a @ m @ b) = a @ b"
    if "length a = 1024 * 1024" "length b = 1024 * 1024" for m
    by (rule hashed_bytes_middle[OF _ that]) simp
  have first: "calculate_file_hash cfg w p =
     (if enable_hash_check cfg then
        (case read_file w p of
           Inl e \<Rightarrow> None
         | Inr content \<Rightarrow>
             Some (md5_hexdigest w
               (take (1024 * 1024) content @
                drop (length content - min (1024 * 1024) (length content)) content)))
      else None)"
    unfolding calculate_file_hash_def eq by (simp split: sum.splits)
  have second: "calculate_file_hash cfg w q = Some (md5_hexdigest w (a @ b))"
    if "enable_hash_check cfg" "read_file w q = Inr (a @ m @ b)"
      "length a = 1024 * 1024" "length b = 1024 * 1024" for q m
    unfolding calculate_file_hash_def using that(1,2) mid[OF that(3,4), of m] by simp
  from first second[of p mid] second[of p' mid'] show ?thesis by simp
qed

theorem fingerprint_reads_head_and_tail_witness:
  "calculate_file_hash fingerprint_config fingerprint_world ''/app/input/b.mp4'' =
     calculate_file_hash fingerprint_config fingerprint_world ''/app/input/a.mp4'' \<and>
   calculate_file_hash fingerprint_config fingerprint_world ''/app/input/a.mp4'' =
     Some (replicate 1048576 (CHR ''a'') @ replicate 1048576 (CHR ''b'')) \<and>
   read_file fingerprint_world ''/app/input/a.mp4'' \<noteq>
     read_file fingerprint_world ''/app/input/b.mp4'' \<and>
   calculate_file_hash fingerprint_config fingerprint_world ''/app/input/small.mp4'' =
     Some ''abcabc'' \<and>
   calculate_file_hash fingerprint_config fingerprint_world ''/app/input/none.mp4'' = None \<and>
   calculate_file_hash scenario_config fingerprint_world ''/app/input/a.mp4'' = None"
proof -
  let ?a = "replicate 1048576 (CHR ''a'')" and ?b = "replicate 1048576 (CHR ''b'')"
  have en: "enable_hash_check fingerprint_config"
    and dis: "\<not> enable_hash_check scenario_config"
    by (simp_all add: fingerprint_config_def scenario_config_def)
  have ra: "read_file fingerprint_world ''/app/input/a.mp4'' = Inr (?a @ ''x'' @ ?b)"
    and rb: "read_file fingerprint_world ''/app/input/b.mp4'' = Inr (?a @ ''y'' @ ?b)"
    and rs: "read_file fingerprint_world ''/app/input/small.mp4'' = Inr ''abc''"
    and rn: "read_file fingerprint_world ''/app/input/none.mp4'' = Inl FileNotFound"
    and md: "md5_hexdigest fingerprint_world = (\<lambda>b. b)"
    by (simp_all add: fingerprint_world_def scenario_world_def)
  have la: "length ?a = 1024 * 1024" and lb: "length ?b = 1024 * 1024" by simp_all
  have ne: "?a @ ''x'' @ ?b \<noteq> ?a @ ''y'' @ ?b" by simp
  from fingerprint_reads_head_and_tail
         [of fingerprint_config fingerprint_world "''/app/input/a.mp4''" ?a "''x''" ?b
             "''/app/input/b.mp4''" "''y''"]
       en ra rb la lb md
  have 1: "calculate_file_hash fingerprint_config fingerprint_world ''/app/input/a.mp4'' =
        Some (?a @ ?b)"
    and 2: "calculate_file_hash fingerprint_config fingerprint_world ''/app/input/b.mp4'' =
        calculate_file_hash fingerprint_config fingerprint_world ''/app/input/a.mp4''"
    by simp_all
  from fingerprint_reads_head_and_tail
         [of fingerprint_config fingerprint_world "''/app/input/small.mp4''"] en rs md
  have 3: "calculate_file_hash fingerprint_config fingerprint_world ''/app/input/small.mp4'' =
        Some ''abcabc''" by simp
  from fingerprint_reads_head_and_tail
         [of fingerprint_config fingerprint_world "''/app/input/none.mp4''"] en rn
  have 4: "calculate_file_hash fingerprint_config fingerprint_world ''/app/input/none.mp4'' =
        None" by simp
  from fingerprint_reads_head_and_tail
         [of scenario_config fingerprint_world "''/app/input/a.mp4''"] dis
  have 5: "calculate_file_hash scenario_config fingerprint_world ''/app/input/a.mp4'' = None"
    by simp
  from 1 2 3 4 5 ne ra rb show ?thesis by simp
qed

section \<open>The worker, the scanner and the queue\<close>

lemma process_file_Some:
  assumes "process_file fuel w m job t = Some (m', job', r, t')"
  shows "processing_queue m' = processing_queue m" and "config m' = config m"
    and "file_path job' = file_path job" and "status job' \<noteq> Pending"
    and "current_job m' = None"
  using assms
  by (auto simp: process_file_def begin_processing_def record_failure_def record_success_def
      Let_def split: option.splits wait_result.splits proc_outcome.splits if_splits)

lemma first_pending_None: "first_pending q = None \<longleftrightarrow> pending_jobs q = []"
  by (induction q) (auto simp: pending_jobs_def)

lemma first_pending_Some:
  "first_pending q = Some i \<Longrightarrow>
     i < length q \<and> status (q ! i) = Pending \<and> pending_jobs (take i q) = [] \<and>
     pending_jobs q = q ! i # pending_jobs (drop (Suc i) q)"
proof (induction q arbitrary: i)
  case Nil
  then show ?case by simp
next
  case (Cons j q)
  show ?case
  proof (cases "status j = Pending")
    case True
    with Cons.prems show ?thesis by (simp add: pending_jobs_def)
  next
    case False
    with Cons.prems obtain k where k: "first_pending q = Some k" "i = Suc k" by auto
    from Cons.IH[OF k(1)] False k(2) show ?thesis by (simp add: pending_jobs_def)
  qed
qed

lemma pending_jobs_update:
  "first_pending q = Some i \<Longrightarrow> status job' \<noteq> Pending \<Longrightarrow>
   pending_jobs (q[i := job']) = pending_jobs (drop (Suc i) q)"
proof (induction q arbitrary: i)
  case Nil
  then show ?case by simp
next
  case (Cons j q)
  show ?case
  proof (cases "status j = Pending")
    case True
    with Cons.prems show ?thesis by (simp add: pending_jobs_def)
  next
    case False
    with Cons.prems obtain k where k: "first_pending q = Some k" "i = Suc k" by auto
    from Cons.IH[OF k(1) Cons.prems(2)] False k(2) show ?thesis
      by (simp add: pending_jobs_def)
  qed
qed

lemma iteration_idle:
  "first_pending (processing_queue m) = None \<Longrightarrow>
   process_queue_iteration fuel w m t = Some (m, t + 5)"
  by (simp add: process_queue_iteration_def)

lemma iteration_handles:
  assumes "first_pending (processing_queue m) = Some i"
    and "process_file fuel w m (processing_queue m ! i) t = Some (m', job', r, t')"
  shows "process_queue_iteration fuel w m t =
     Some (m'\<lparr>processing_queue := pending_jobs (drop (Suc i) (processing_queue m))\<rparr>, t')"
  using assms process_file_Some(1,4)[OF assms(2)] pending_jobs_update[OF assms(1), of job']
  by (simp add: process_queue_iteration_def)



lemma pending_jobs_id: "(\<forall>j\<in>set q. status j = Pending) \<Longrightarrow> pending_jobs q = q"
  by (simp add: pending_jobs_def)


lemma add_to_queue_fields:
  "config (add_to_queue w m p t) = config m"
  "completed_files (add_to_queue w m p t) = completed_files m"
  "stats (add_to_queue w m p t) = stats m"
  "current_job (add_to_queue w m p t) = current_job m"
  by (simp_all add: add_to_queue_def split: sum.splits option.splits)





lemma enqueue_completed:
  "completed_files (foldl (\<lambda>m p. add_to_queue w m p t) m ps) = completed_files m"
  by (induction ps arbitrary: m) (simp_all add: add_to_queue_fields)


lemma scan_and_enqueue_completed:
  "completed_files (scan_and_enqueue w m t) = completed_files m"
  by (simp add: scan_and_enqueue_def Let_def enqueue_completed)

lemma in_queue_iff: "in_queue q p \<longleftrightarrow> p \<in> set (map file_path q)"
  by (auto simp: in_queue_def list_ex_iff)



lemma scan_finds:
  assumes "rglob w t = Some entries" and "(p, True) \<in> set entries"
    and "is_video_file (config m) w p" and "p \<notin> set (completed_files m)"
    and "\<not> in_queue (processing_queue m) p"
  shows "p \<in> set (scan_for_new_files w m t)"
  using assms by (force simp: scan_for_new_files_def)

















section \<open>The outcome of an invocation\<close>

lemma process_file_failed:
  assumes "stability_loop fuel (config m) w (file_path job) 0 t = Some (Ready, t1)"
    and "javsp w t1 = Exits rc d" and "rc \<noteq> 0"
  shows "\<exists>job'. process_file fuel w m job t =
           Some (record_failure (fst (begin_processing m job)), job', False, t1 + d) \<and>
         status job' = Failed"
  using assms by (simp add: process_file_def begin_processing_def Let_def)

lemma process_file_raises:
  assumes "stability_loop fuel (config m) w (file_path job) 0 t = Some (Ready, t1)"
    and "javsp w t1 = PopenRaises"
  shows "\<exists>job'. process_file fuel w m job t =
           Some (record_failure (fst (begin_processing m job)), job', False, t1) \<and>
         status job' = Failed"
  using assms by (simp add: process_file_def begin_processing_def Let_def)

lemma process_file_output_raises:
  assumes "stability_loop fuel (config m) w (file_path job) 0 t = Some (Ready, t1)"
    and "javsp w t1 = OutputRaises d"
  shows "\<exists>job'. process_file fuel w m job t =
           Some (record_failure (fst (begin_processing m job)), job', False, t1 + d) \<and>
         status job' = Failed"
  using assms by (simp add: process_file_def begin_processing_def Let_def)

lemma process_file_completed:
  assumes "stability_loop fuel (config m) w (file_path job) 0 t = Some (Ready, t1)"
    and "javsp w t1 = Exits 0 d"
  shows "\<exists>job'. process_file fuel w m job t =
           Some (record_success (fst (begin_processing m job)) (file_path job) d, job', True,
                 t1 + d) \<and>
         status job' = Completed"
  using assms by (simp add: process_file_def begin_processing_def Let_def)

lemma record_failure_fields:
  "files_failed (stats (record_failure (fst (begin_processing m job)))) =
     files_failed (stats m) + 1"
  "files_processed (stats (record_failure (fst (begin_processing m job)))) =
     files_processed (stats m)"
  "completed_files (record_failure (fst (begin_processing m job))) = completed_files m"
  "config (record_failure (fst (begin_processing m job))) = config m"
  by (simp_all add: record_failure_def begin_processing_def Let_def)

lemma record_success_fields:
  "files_failed (stats (record_success (fst (begin_processing m job)) p d)) =
     files_failed (stats m)"
  "files_processed (stats (record_success (fst (begin_processing m job)) p d)) =
     files_processed (stats m) + 1"
  "set (completed_files (record_success (fst (begin_processing m job)) p d)) =
     insert p (set (completed_files m))"
  by (simp_all add: record_success_def begin_processing_def Let_def)

lemma distinct_later_paths:
  assumes "distinct (map file_path q)" and "i < length q"
  shows "file_path (q ! i) \<notin> set (map file_path (drop (Suc i) q))"
proof -
  have "q = take i q @ q ! i # drop (Suc i) q"
    using assms(2) by (simp add: id_take_nth_drop)
  then have "map file_path q =
      map file_path (take i q) @ file_path (q ! i) # map file_path (drop (Suc i) q)"
    by (metis list.simps(9) map_append)
  with assms(1) show ?thesis by (metis distinct.simps(2) distinct_append)
qed

text \<open>
  C6. The worker picks the first pending job, the wait ends normally and the external
  command exits with a return code other than 0. Then \<^verbatim>\<open>process_file\<close> returns
  false with the job \<open>Failed\<close>; after the pass \<^verbatim>\<open>files_failed\<close> is one more than
  before, \<^verbatim>\<open>files_processed\<close> and the set of completed files are as before; and,
  when the queue held one job for each path and the path was not completed before, the
  next scan that finds the path as a video file proposes it again.
\<close>

theorem nonzero_exit_fails_job:
  assumes pick: "first_pending (processing_queue m) = Some i"
    and ready: "stability_loop fuel (config m) w (file_path (processing_queue m ! i)) 0 t =
                  Some (Ready, t1)"
    and exit: "javsp w t1 = Exits rc d" and nz: "rc \<noteq> 0"
  shows "\<exists>m1 job' m'.
     process_file fuel w m (processing_queue m ! i) t = Some (m1, job', False, t1 + d) \<and>
     status job' = Failed \<and>
     process_queue_iteration fuel w m t = Some (m', t1 + d) \<and>
     files_failed (stats m') = files_failed (stats m) + 1 \<and>
     files_processed (stats m') = files_processed (stats m) \<and>
     completed_files m' = completed_files m \<and>
     (distinct (map file_path (processing_queue m)) \<and>
      file_path (processing_queue m ! i) \<notin> set (completed_files m) \<longrightarrow>
        (\<forall>t2 entries. rglob w t2 = Some entries \<and>
           (file_path (processing_queue m ! i), True) \<in> set entries \<and>
           is_video_file (config m) w (file_path (processing_queue m ! i)) \<longrightarrow>
           file_path (processing_queue m ! i) \<in> set (scan_for_new_files w m' t2)))"
proof -
  let ?job = "processing_queue m ! i"
  let ?m1 = "record_failure (fst (begin_processing m ?job))"
  let ?m' = "?m1\<lparr>processing_queue := pending_jobs (drop (Suc i) (processing_queue m))\<rparr>"
  from process_file_failed[OF ready exit nz] obtain job' where
    pf: "process_file fuel w m ?job t = Some (?m1, job', False, t1 + d)"
    and st: "status job' = Failed" by blast
  from iteration_handles[OF pick pf]
  have it: "process_queue_iteration fuel w m t = Some (?m', t1 + d)" .
  have stats: "files_failed (stats ?m') = files_failed (stats m) + 1"
    "files_processed (stats ?m') = files_processed (stats m)"
    "completed_files ?m' = completed_files m" "config ?m' = config m"
    by (simp_all add: record_failure_fields)
  have found: "file_path ?job \<in> set (scan_for_new_files w ?m' t2)"
    if d: "distinct (map file_path (processing_queue m))"
      and nc: "file_path ?job \<notin> set (completed_files m)"
      and g: "rglob w t2 = Some entries" and e: "(file_path ?job, True) \<in> set entries"
      and v: "is_video_file (config m) w (file_path ?job)" for t2 entries
  proof (rule scan_finds[OF g e])
    show "is_video_file (config ?m') w (file_path ?job)" using v stats(4) by simp
    show "file_path ?job \<notin> set (completed_files ?m')" using nc stats(3) by simp
    from first_pending_Some[OF pick] have "i < length (processing_queue m)" by simp
    from distinct_later_paths[OF d this]
    have "file_path ?job \<notin> set (map file_path (drop (Suc i) (processing_queue m)))" .
    then have "file_path ?job \<notin>
        set (map file_path (pending_jobs (drop (Suc i) (processing_queue m))))"
      by (auto simp: pending_jobs_def)
    then show "\<not> in_queue (processing_queue ?m') (file_path ?job)"
      by (simp add: in_queue_iff)
  qed
  from pf st it stats(1,2,3) found show ?thesis by blast
qed


lemma scenario_ready:
  "stability_loop 5 (config two_jobs_monitor) (scenario_world rc)
     (file_path (processing_queue two_jobs_monitor ! 0)) 0 10 = Some (Ready, 25)"
  by (simp add: two_jobs_monitor_def init_monitor_def scenario_job_def scenario_config_def
      scenario_world_def scenario_stat_def copied_file_def is_file_stable_def Let_def
      eval_nat_numeral)

lemma scenario_pick: "first_pending (processing_queue two_jobs_monitor) = Some 0"
  by (simp add: two_jobs_monitor_def scenario_job_def)

theorem nonzero_exit_fails_job_witness:
  "\<exists>m'. process_queue_iteration 5 (scenario_world 1) two_jobs_monitor 10 = Some (m', 145) \<and>
     files_failed (stats m') = 1 \<and> files_processed (stats m') = 0 \<and>
     completed_files m' = [] \<and>
     ''/app/input/a.mp4'' \<in> set (scan_for_new_files (scenario_world 1) m' 200)"
proof -
  have exit: "javsp (scenario_world 1) 25 = Exits 1 120" by (simp add: scenario_world_def)
  have pre: "distinct (map file_path (processing_queue two_jobs_monitor)) \<and>
      file_path (processing_queue two_jobs_monitor ! 0) \<notin> set (completed_files two_jobs_monitor)"
    by (simp add: two_jobs_monitor_def init_monitor_def scenario_job_def)
  have walk: "rglob (scenario_world 1) 200 =
      Some [(''/app/input/a.mp4'', True), (''/app/input/b.mp4'', True),
            (''/app/input/notes.txt'', True), (''/app/input/sub'', False)] \<and>
    (file_path (processing_queue two_jobs_monitor ! 0), True) \<in>
      set [(''/app/input/a.mp4'', True), (''/app/input/b.mp4'', True),
           (''/app/input/notes.txt'', True), (''/app/input/sub'', False)] \<and>
    is_video_file (config two_jobs_monitor) (scenario_world 1)
      (file_path (processing_queue two_jobs_monitor ! 0))"
    by (simp add: two_jobs_monitor_def init_monitor_def scenario_job_def scenario_world_def
        is_video_file_def scenario_config_def)
  have p: "file_path (processing_queue two_jobs_monitor ! 0) = ''/app/input/a.mp4''"
    and s0: "files_failed (stats two_jobs_monitor) = 0"
      "files_processed (stats two_jobs_monitor) = 0" "completed_files two_jobs_monitor = []"
    by (simp_all add: two_jobs_monitor_def init_monitor_def scenario_job_def)
  have nz: "(1::int) \<noteq> 0" by simp
  from nonzero_exit_fails_job [OF scenario_pick scenario_ready exit nz]
  obtain m' where
    it: "process_queue_iteration 5 (scenario_world 1) two_jobs_monitor 10 = Some (m', 25 + 120)"
    and ff: "files_failed (stats m') = files_failed (stats two_jobs_monitor) + 1"
    and fp: "files_processed (stats m') = files_processed (stats two_jobs_monitor)"
    and cf: "completed_files m' = completed_files two_jobs_monitor"
    and imp: "distinct (map file_path (processing_queue two_jobs_monitor)) \<and>
      file_path (processing_queue two_jobs_monitor ! 0) \<notin> set (completed_files two_jobs_monitor) \<longrightarrow>
        (\<forall>t2 entries. rglob (scenario_world 1) t2 = Some entries \<and>
           (file_path (processing_queue two_jobs_monitor ! 0), True) \<in> set entries \<and>
           is_video_file (config two_jobs_monitor) (scenario_world 1)
             (file_path (processing_queue two_jobs_monitor ! 0)) \<longrightarrow>
           file_path (processing_queue two_jobs_monitor ! 0) \<in>
             set (scan_for_new_files (scenario_world 1) m' t2))"
    by blast
  from imp pre walk
  have "file_path (processing_queue two_jobs_monitor ! 0) \<in>
      set (scan_for_new_files (scenario_world 1) m' 200)" by blast
  with it ff fp cf p s0 show ?thesis by simp
qed

text \<open>
  C4, as stated, fails. The queue holds the pending jobs of \<^verbatim>\<open>a.mp4\<close> and
  \<^verbatim>\<open>b.mp4\<close>, both files ready in the input directory that the command is given,
  and the command exits with 1. The pass counts one failure, and the job of
  \<^verbatim>\<open>b.mp4\<close> is not marked failed: it stays in the queue, pending.
\<close>

theorem wave_is_one_job_counterexample:
  "map_option (\<lambda>(m', t'). (map file_path (processing_queue m'), map status (processing_queue m'),
        files_failed (stats m'), t'))
     (process_queue_iteration 5 (scenario_world 1) two_jobs_monitor 10) =
   Some ([''/app/input/b.mp4''], [Pending], 1, 145) \<and>
   map status (processing_queue two_jobs_monitor) = [Pending, Pending] \<and>
   fst (is_file_stable scenario_config (scenario_world 1) ''/app/input/b.mp4'' 10)"
  by (simp add: process_queue_iteration_def process_file_def begin_processing_def Let_def
      scenario_world_def scenario_stat_def scenario_config_def copied_file_def scenario_job_def
      init_monitor_def two_jobs_monitor_def is_file_stable_def record_failure_def
      pending_jobs_def eval_nat_numeral)

text \<open>
  C4, amended. An invocation of the external command is made for one job, the first
  pending job of the queue, once its wait has ended normally. When the output of the
  command is read to its end and the command exits with 0, that job is marked
  completed (the file is not examined after the run) and \<^verbatim>\<open>files_processed\<close>
  grows by one; when the command exits with another code, or starting it raises, or
  reading its output raises, that job is marked failed and \<^verbatim>\<open>files_failed\<close>
  grows by one. The other pending jobs stay in the queue as they were, pending.
\<close>

theorem invocation_settles_its_own_job:
  assumes pick: "first_pending (processing_queue m) = Some i"
    and ready: "stability_loop fuel (config m) w (file_path (processing_queue m ! i)) 0 t =
                  Some (Ready, t1)"
    and ends: "javsp w t1 \<noteq> NeverExits"
  shows "\<exists>m1 job' t' m'.
     process_file fuel w m (processing_queue m ! i) t =
       Some (m1, job', \<exists>d. javsp w t1 = Exits 0 d, t') \<and>
     status job' = (if \<exists>d. javsp w t1 = Exits 0 d then Completed else Failed) \<and>
     process_queue_iteration fuel w m t = Some (m', t') \<and>
     pending_jobs (processing_queue m) = processing_queue m ! i # processing_queue m' \<and>
     files_failed (stats m') =
       files_failed (stats m) + (if \<exists>d. javsp w t1 = Exits 0 d then 0 else 1) \<and>
     files_processed (stats m') =
       files_processed (stats m) + (if \<exists>d. javsp w t1 = Exits 0 d then 1 else 0)"
proof -
  let ?job = "processing_queue m ! i"
  let ?rest = "pending_jobs (drop (Suc i) (processing_queue m))"
  from first_pending_Some[OF pick]
  have pj: "pending_jobs (processing_queue m) = ?job # ?rest" by simp
  show ?thesis
  proof (cases "javsp w t1")
    case PopenRaises
    then have ok: "(\<exists>d. javsp w t1 = Exits 0 d) = False" by simp
    from process_file_raises[OF ready PopenRaises] obtain job' where
      pf: "process_file fuel w m ?job t =
             Some (record_failure (fst (begin_processing m ?job)), job', False, t1)"
      and st: "status job' = Failed" by blast
    from iteration_handles[OF pick pf] pf st pj show ?thesis
      unfolding ok by (simp add: record_failure_fields)
  next
    case (Exits rc d)
    show ?thesis
    proof (cases "rc = 0")
      case True
      with Exits have e: "javsp w t1 = Exits 0 d" by simp
      then have ok: "(\<exists>d. javsp w t1 = Exits 0 d) = True" by simp
      from process_file_completed[OF ready e] obtain job' where
        pf: "process_file fuel w m ?job t =
               Some (record_success (fst (begin_processing m ?job)) (file_path ?job) d, job',
                     True, t1 + d)"
        and st: "status job' = Completed" by blast
      from iteration_handles[OF pick pf] pf st pj show ?thesis
        unfolding ok by (simp add: record_success_fields)
    next
      case False
      with Exits have ok: "(\<exists>d. javsp w t1 = Exits 0 d) = False" by simp
      from process_file_failed[OF ready Exits False] obtain job' where
        pf: "process_file fuel w m ?job t =
               Some (record_failure (fst (begin_processing m ?job)), job', False, t1 + d)"
        and st: "status job' = Failed" by blast
      from iteration_handles[OF pick pf] pf st pj show ?thesis
        unfolding ok by (simp add: record_failure_fields)
    qed
  next
    case (OutputRaises d)
    then have ok: "(\<exists>d. javsp w t1 = Exits 0 d) = False" by simp
    from process_file_output_raises[OF ready OutputRaises] obtain job' where
      pf: "process_file fuel w m ?job t =
             Some (record_failure (fst (begin_processing m ?job)), job', False, t1 + d)"
      and st: "status job' = Failed" by blast
    from iteration_handles[OF pick pf] pf st pj show ?thesis
      unfolding ok by (simp add: record_failure_fields)
  next
    case NeverExits
    with ends show ?thesis by simp
  qed
qed

lemma undecodable_ready:
  "stability_loop 5 (config two_jobs_monitor) undecodable_world
     (file_path (processing_queue two_jobs_monitor ! 0)) 0 10 = Some (Ready, 25)"
  by (simp add: two_jobs_monitor_def init_monitor_def scenario_job_def scenario_config_def
      undecodable_world_def scenario_world_def scenario_stat_def copied_file_def
      is_file_stable_def Let_def eval_nat_numeral)

theorem invocation_settles_its_own_job_witness:
  "(\<exists>m' t'. process_queue_iteration 5 (scenario_world 1) two_jobs_monitor 10 = Some (m', t') \<and>
      processing_queue m' = [scenario_job ''/app/input/b.mp4''] \<and>
      files_failed (stats m') = 1 \<and> files_processed (stats m') = 0) \<and>
   (\<exists>m' t'. process_queue_iteration 5 (scenario_world 0) two_jobs_monitor 10 = Some (m', t') \<and>
      processing_queue m' = [scenario_job ''/app/input/b.mp4''] \<and>
      files_failed (stats m') = 0 \<and> files_processed (stats m') = 1) \<and>
   (\<exists>m' t'. process_queue_iteration 5 undecodable_world two_jobs_monitor 10 = Some (m', t') \<and>
      processing_queue m' = [scenario_job ''/app/input/b.mp4''] \<and>
      files_failed (stats m') = 1 \<and> files_processed (stats m') = 0)"
proof -
  have e: "javsp (scenario_world rc) 25 \<noteq> NeverExits" for rc
    by (simp add: scenario_world_def)
  have eu: "javsp undecodable_world 25 \<noteq> NeverExits"
    by (simp add: undecodable_world_def)
  have r: "(\<exists>d. javsp (scenario_world 1) 25 = Exits 0 d) = False"
    "(\<exists>d. javsp (scenario_world 0) 25 = Exits 0 d) = True"
    "(\<exists>d. javsp undecodable_world 25 = Exits 0 d) = False"
    by (simp_all add: scenario_world_def undecodable_world_def)
  have q: "pending_jobs (processing_queue two_jobs_monitor) =
      [scenario_job ''/app/input/a.mp4'', scenario_job ''/app/input/b.mp4'']"
    "processing_queue two_jobs_monitor ! 0 = scenario_job ''/app/input/a.mp4''"
    "files_failed (stats two_jobs_monitor) = 0" "files_processed (stats two_jobs_monitor) = 0"
    by (simp_all add: two_jobs_monitor_def init_monitor_def scenario_job_def pending_jobs_def)
  from invocation_settles_its_own_job [OF scenario_pick scenario_ready e, of 1]
  obtain m1 t1 where
    "process_queue_iteration 5 (scenario_world 1) two_jobs_monitor 10 = Some (m1, t1)"
    "pending_jobs (processing_queue two_jobs_monitor) =
       processing_queue two_jobs_monitor ! 0 # processing_queue m1"
    "files_failed (stats m1) = files_failed (stats two_jobs_monitor) +
       (if \<exists>d. javsp (scenario_world 1) 25 = Exits 0 d then 0 else 1)"
    "files_processed (stats m1) = files_processed (stats two_jobs_monitor) +
       (if \<exists>d. javsp (scenario_world 1) 25 = Exits 0 d then 1 else 0)"
    by blast
  then have a: "\<exists>m' t'. process_queue_iteration 5 (scenario_world 1) two_jobs_monitor 10 =
      Some (m', t') \<and> processing_queue m' = [scenario_job ''/app/input/b.mp4''] \<and>
      files_failed (stats m') = 1 \<and> files_processed (stats m') = 0"
    unfolding r q by simp
  from invocation_settles_its_own_job [OF scenario_pick scenario_ready e, of 0]
  obtain m0 t0 where
    "process_queue_iteration 5 (scenario_world 0) two_jobs_monitor 10 = Some (m0, t0)"
    "pending_jobs (processing_queue two_jobs_monitor) =
       processing_queue two_jobs_monitor ! 0 # processing_queue m0"
    "files_failed (stats m0) = files_failed (stats two_jobs_monitor) +
       (if \<exists>d. javsp (scenario_world 0) 25 = Exits 0 d then 0 else 1)"
    "files_processed (stats m0) = files_processed (stats two_jobs_monitor) +
       (if \<exists>d. javsp (scenario_world 0) 25 = Exits 0 d then 1 else 0)"
    by blast
  then have b: "\<exists>m' t'. process_queue_iteration 5 (scenario_world 0) two_jobs_monitor 10 =
      Some (m', t') \<and> processing_queue m' = [scenario_job ''/app/input/b.mp4''] \<and>
      files_failed (stats m') = 0 \<and> files_processed (stats m') = 1"
    unfolding r q by simp
  from invocation_settles_its_own_job [OF scenario_pick undecodable_ready eu]
  obtain m2 t2 where
    "process_queue_iteration 5 undecodable_world two_jobs_monitor 10 = Some (m2, t2)"
    "pending_jobs (processing_queue two_jobs_monitor) =
       processing_queue two_jobs_monitor ! 0 # processing_queue m2"
    "files_failed (stats m2) = files_failed (stats two_jobs_monitor) +
       (if \<exists>d. javsp undecodable_world 25 = Exits 0 d then 0 else 1)"
    "files_processed (stats m2) = files_processed (stats two_jobs_monitor) +
       (if \<exists>d. javsp undecodable_world 25 = Exits 0 d then 1 else 0)"
    by blast
  then have c: "\<exists>m' t'. process_queue_iteration 5 undecodable_world two_jobs_monitor 10 =
      Some (m', t') \<and> processing_queue m' = [scenario_job ''/app/input/b.mp4''] \<and>
      files_failed (stats m') = 1 \<and> files_processed (stats m') = 0"
    unfolding r q by simp
  from a b c show ?thesis by blast
qed

section \<open>The round trip of the state file\<close>




text \<open>A restart on a state file that lists 42 processed files.\<close>

lemma restart_with_42:
  "files_processed (stats (load_state (init_monitor cfg)
     (StateDocument \<lparr>doc_stats = Some \<lparr>e_files_processed = Some 42, e_files_failed = Some 3,
          e_total_processing_time = Some 5000, e_last_activity = Some (Some 77)\<rparr>,
        doc_completed_files = Some [''/app/input/a.mp4''], doc_queue_length = 0,
        doc_current_job = None, doc_timestamp = 99\<rparr>))) = 42"
  by (simp add: load_state_def update_stats_def)

section \<open>The merge of the configuration\<close>

lemma map_of_dict_set: "map_of (dict_set k v d) = (map_of d)(k \<mapsto> v)"
  by (induction d) auto

lemma map_of_dict_update: "map_of (dict_update d u) = map_of d ++ map_of (rev u)"
proof (induction u arbitrary: d)
  case Nil
  then show ?case by simp
next
  case (Cons kv u)
  obtain k v where kv: "kv = (k, v)" by (cases kv)
  have "map_of (dict_update d (kv # u)) = (map_of d)(k \<mapsto> v) ++ map_of (rev u)"
    by (simp only: kv dict_update.simps Cons.IH map_of_dict_set)
  also have "\<dots> = map_of d ++ map_of (rev (kv # u))"
    by (simp add: kv map_of_append)
  finally show ?case .
qed

text \<open>One pass of the loop of \<^verbatim>\<open>_merge_config\<close>, whatever the value of the item.\<close>

lemma merge_config_step:
  "merge_config d ((k, v) # u) = merge_config (dict_set k (merged_value (map_of d k) v) d) u"
  by (cases v) (auto simp: merged_value_def split: option.splits json.splits)

lemma merge_config_lookup:
  "distinct (map fst u) \<Longrightarrow>
   map_of (merge_config d u) k =
     (case map_of u k of None \<Rightarrow> map_of d k | Some v \<Rightarrow> Some (merged_value (map_of d k) v))"
proof (induction u arbitrary: d)
  case Nil
  then show ?case by simp
next
  case (Cons kv u)
  obtain k' v' where kv: "kv = (k', v')" by (cases kv)
  let ?d = "dict_set k' (merged_value (map_of d k') v') d"
  from Cons.prems kv have dist: "distinct (map fst u)" and fresh: "map_of u k' = None"
    by (auto simp: map_of_eq_None_iff)
  have "map_of (merge_config d (kv # u)) k = map_of (merge_config ?d u) k"
    by (simp only: kv merge_config_step)
  also have "\<dots> =
      (case map_of u k of None \<Rightarrow> map_of ?d k | Some v \<Rightarrow> Some (merged_value (map_of ?d k) v))"
    by (rule Cons.IH[OF dist])
  also have "\<dots> =
      (case map_of (kv # u) k of None \<Rightarrow> map_of d k
       | Some v \<Rightarrow> Some (merged_value (map_of d k) v))"
    using fresh by (cases "k = k'") (simp_all add: kv map_of_dict_set split: option.splits)
  finally show ?case .
qed

text \<open>On defaults that hold no mapping at the keys of the user document the two merges agree.\<close>

lemma merge_config_flat:
  "distinct (map fst u) \<Longrightarrow>
   (\<And>k nested. k \<in> fst ` set u \<Longrightarrow> map_of d k \<noteq> Some (JObject nested)) \<Longrightarrow>
   merge_config d u = dict_update d u"
proof (induction u arbitrary: d)
  case Nil
  then show ?case by simp
next
  case (Cons kv u)
  obtain k v where kv: "kv = (k, v)" by (cases kv)
  from Cons.prems(2)[of k] kv have "map_of d k \<noteq> Some (JObject nested)" for nested by simp
  then have here: "merged_value (map_of d k) v = v"
    by (auto simp: merged_value_def split: option.splits json.splits)
  have "merge_config (dict_set k v d) u = dict_update (dict_set k v d) u"
  proof (rule Cons.IH)
    show "distinct (map fst u)" using Cons.prems(1) by simp
    fix k' nested assume k': "k' \<in> fst ` set u"
    with Cons.prems(1) kv have "k' \<noteq> k" by auto
    then have "map_of (dict_set k v d) k' = map_of d k'" by (simp add: map_of_dict_set)
    with Cons.prems(2)[of k'] k' show "map_of (dict_set k v d) k' \<noteq> Some (JObject nested)"
      by simp
  qed
  then show ?case by (simp only: kv merge_config_step here dict_update.simps)
qed

lemma default_config_flat: "map_of default_config k \<noteq> Some (JObject nested)"
  by (simp add: default_config_def)

lemma load_config_is_merge_config:
  "distinct (map fst user_config) \<Longrightarrow>
   load_config (ConfigDocument user_config) = merge_config default_config user_config"
  by (simp add: load_config_def merge_config_flat default_config_flat)

text \<open>
  The health checker loading a document that sets an interval, replaces the mapping
  \<^verbatim>\<open>reporting\<close> by \<^verbatim>\<open>false\<close> and adds a key.
\<close>

lemma health_load_config_run:
  "health_load_config (ConfigDocument
     [(''health_checks'', JObject [(''interval'', JInt 60)]),
      (''reporting'', JBool False),
      (''owner'', JString ''ops'')]) =
   [(''health_checks'', JObject
       [(''enabled'', JBool True),
        (''interval'', JInt 60),
        (''components'', JObject
           [(''docker'', JObject [(''enabled'', JBool True), (''timeout'', JInt 30)]),
            (''filesystem'', JObject [(''enabled'', JBool True), (''timeout'', JInt 10)]),
            (''network'', JObject [(''enabled'', JBool True), (''timeout'', JInt 15)]),
            (''application'', JObject [(''enabled'', JBool True), (''timeout'', JInt 20)])])]),
    (''maintenance'', JObject
       [(''enabled'', JBool True),
        (''daily_time'', JString ''03:00''),
        (''weekly_day'', JString ''sunday''),
        (''tasks'', JObject
           [(''cleanup_logs'', JBool True),
            (''optimize_database'', JBool True),
            (''check_disk_space'', JBool True),
            (''update_stats'', JBool True)])]),
    (''alerting'', JObject
       [(''enabled'', JBool True),
        (''critical_immediate'', JBool True),
        (''warning_threshold'', JInt 3),
        (''recovery_notification'', JBool True)]),
    (''reporting'', JBool False),
    (''owner'', JString ''ops'')]"
  by (simp add: health_load_config_def health_default_config_def)

text \<open>
  C3. Config loading merges the user document onto the defaults as a recursive overlay.
  For the merge of the loaders, \<^verbatim>\<open>_merge_config\<close>, with any defaults and any user
  document (a dictionary, each key once): a key that the user document does not hold
  keeps its default; where the user document and the defaults both hold a mapping at a
  key, the result holds the merge of the two mappings, key by key; a value of the user
  document that is not a mapping (a sequence, a scalar) replaces the default entirely,
  and so does any value where the defaults hold no mapping. The loader of the monitor,
  \<^verbatim>\<open>load_config\<close> of \<^verbatim>\<open>smart_monitor.py\<close>, gives on every user document the
  result of this merge on its built-in defaults, and the built-in defaults when there
  is no file or loading it raises.
\<close>

theorem config_merge_is_recursive_overlay:
  assumes "distinct (map fst user_config)"
  shows
    "(map_of user_config k = None \<longrightarrow>
        map_of (merge_config defaults user_config) k = map_of defaults k) \<and>
     (map_of user_config k = Some (JObject items) \<and> map_of defaults k = Some (JObject nested) \<longrightarrow>
        map_of (merge_config defaults user_config) k =
          Some (JObject (merge_config nested items))) \<and>
     (map_of user_config k = Some v \<and> (\<forall>items. v \<noteq> JObject items) \<longrightarrow>
        map_of (merge_config defaults user_config) k = Some v) \<and>
     (map_of user_config k = Some v \<and> (\<forall>nested. map_of defaults k \<noteq> Some (JObject nested)) \<longrightarrow>
        map_of (merge_config defaults user_config) k = Some v) \<and>
     load_config (ConfigDocument user_config) = merge_config default_config user_config \<and>
     health_load_config (ConfigDocument user_config) =
       merge_config health_default_config user_config \<and>
     load_config NoConfigFile = default_config \<and>
     load_config ConfigLoadFails = default_config"
proof -
  note look = merge_config_lookup[OF assms, of defaults k]
  have 1: "map_of user_config k = None \<Longrightarrow>
      map_of (merge_config defaults user_config) k = map_of defaults k"
    using look by simp
  have 2: "map_of user_config k = Some (JObject items) \<Longrightarrow>
      map_of defaults k = Some (JObject nested) \<Longrightarrow>
      map_of (merge_config defaults user_config) k = Some (JObject (merge_config nested items))"
    using look by (simp add: merged_value_def)
  have 3: "map_of user_config k = Some v \<Longrightarrow> (\<forall>items. v \<noteq> JObject items) \<Longrightarrow>
      map_of (merge_config defaults user_config) k = Some v"
    using look by (auto simp: merged_value_def split: option.splits json.splits)
  have 4: "map_of user_config k = Some v \<Longrightarrow>
      (\<forall>nested. map_of defaults k \<noteq> Some (JObject nested)) \<Longrightarrow>
      map_of (merge_config defaults user_config) k = Some v"
    using look by (auto simp: merged_value_def split: option.splits json.splits)
  have 5: "load_config (ConfigDocument user_config) = merge_config default_config user_config"
    by (rule load_config_is_merge_config[OF assms])
  have 6: "health_load_config (ConfigDocument user_config) =
      merge_config health_default_config user_config"
    by (simp add: health_load_config_def)
  have 7: "load_config NoConfigFile = default_config"
    "load_config ConfigLoadFails = default_config"
    by (simp_all add: load_config_def)
  from 1 2 3 4 5 6 7 show ?thesis by blast
qed

theorem config_merge_is_recursive_overlay_witness:
  "map_of (health_load_config (ConfigDocument
       [(''health_checks'', JObject [(''interval'', JInt 60)]),
        (''reporting'', JBool False), (''owner'', JString ''ops'')])) ''health_checks'' =
     Some (JObject
       [(''enabled'', JBool True),
        (''interval'', JInt 60),
        (''components'', JObject
           [(''docker'', JObject [(''enabled'', JBool True), (''timeout'', JInt 30)]),
            (''filesystem'', JObject [(''enabled'', JBool True), (''timeout'', JInt 10)]),
            (''network'', JObject [(''enabled'', JBool True), (''timeout'', JInt 15)]),
            (''application'', JObject [(''enabled'', JBool True), (''timeout'', JInt 20)])])]) \<and>
   map_of (health_load_config (ConfigDocument
       [(''health_checks'', JObject [(''interval'', JInt 60)]),
        (''reporting'', JBool False), (''owner'', JString ''ops'')])) ''reporting'' =
     Some (JBool False) \<and>
   map_of (health_load_config (ConfigDocument
       [(''health_checks'', JObject [(''interval'', JInt 60)]),
        (''reporting'', JBool False), (''owner'', JString ''ops'')])) ''owner'' =
     Some (JString ''ops'') \<and>
   map_of (health_load_config (ConfigDocument
       [(''health_checks'', JObject [(''interval'', JInt 60)]),
        (''reporting'', JBool False), (''owner'', JString ''ops'')])) ''alerting'' =
     map_of health_default_config ''alerting'' \<and>
   load_config (ConfigDocument
       [(''video_extensions'', JArray [JString ''.mp4'']), (''min_file_size_mb'', JInt 100)]) =
     merge_config default_config
       [(''video_extensions'', JArray [JString ''.mp4'']), (''min_file_size_mb'', JInt 100)] \<and>
   map_of (load_config (ConfigDocument
       [(''video_extensions'', JArray [JString ''.mp4'']), (''min_file_size_mb'', JInt 100)]))
     ''video_extensions'' = Some (JArray [JString ''.mp4''])"
proof -
  let ?doc = "[(''health_checks'', JObject [(''interval'', JInt 60)]),
               (''reporting'', JBool False), (''owner'', JString ''ops'')]"
  let ?sdoc = "[(''video_extensions'', JArray [JString ''.mp4'']),
                (''min_file_size_mb'', JInt 100)]"
  let ?checks = "[(''enabled'', JBool True),
        (''interval'', JInt 300),
        (''components'', JObject
           [(''docker'', JObject [(''enabled'', JBool True), (''timeout'', JInt 30)]),
            (''filesystem'', JObject [(''enabled'', JBool True), (''timeout'', JInt 10)]),
            (''network'', JObject [(''enabled'', JBool True), (''timeout'', JInt 15)]),
            (''application'', JObject [(''enabled'', JBool True), (''timeout'', JInt 20)])])]"
  have dd: "distinct (map fst ?doc)" and ds: "distinct (map fst ?sdoc)" by simp_all
  have h: "health_load_config (ConfigDocument ?doc) = merge_config health_default_config ?doc"
    using config_merge_is_recursive_overlay [OF dd] by blast
  have u1: "map_of ?doc ''health_checks'' = Some (JObject [(''interval'', JInt 60)])"
    and u2: "map_of ?doc ''reporting'' = Some (JBool False)"
    and u3: "map_of ?doc ''owner'' = Some (JString ''ops'')"
    and u4: "map_of ?doc ''alerting'' = None"
    and u5: "map_of ?sdoc ''video_extensions'' = Some (JArray [JString ''.mp4''])"
    by simp_all
  have d1: "map_of health_default_config ''health_checks'' = Some (JObject ?checks)"
    and d3: "\<forall>nested. map_of health_default_config ''owner'' \<noteq> Some (JObject nested)"
    by (simp_all add: health_default_config_def)
  have n2: "\<forall>items. JBool False \<noteq> JObject items"
    and n5: "\<forall>items. JArray [JString ''.mp4''] \<noteq> JObject items" by simp_all
  from config_merge_is_recursive_overlay
         [OF dd, where k = "''health_checks''" and defaults = health_default_config
            and items = "[(''interval'', JInt 60)]" and nested = ?checks] u1 d1
  have "map_of (merge_config health_default_config ?doc) ''health_checks'' =
      Some (JObject (merge_config ?checks [(''interval'', JInt 60)]))" by blast
  then have 1: "map_of (health_load_config (ConfigDocument ?doc)) ''health_checks'' =
     Some (JObject
       [(''enabled'', JBool True),
        (''interval'', JInt 60),
        (''components'', JObject
           [(''docker'', JObject [(''enabled'', JBool True), (''timeout'', JInt 30)]),
            (''filesystem'', JObject [(''enabled'', JBool True), (''timeout'', JInt 10)]),
            (''network'', JObject [(''enabled'', JBool True), (''timeout'', JInt 15)]),
            (''application'', JObject [(''enabled'', JBool True), (''timeout'', JInt 20)])])])"
    unfolding h by simp
  from config_merge_is_recursive_overlay
         [OF dd, where k = "''reporting''" and defaults = health_default_config
            and v = "JBool False"] u2 n2
  have 2: "map_of (health_load_config (ConfigDocument ?doc)) ''reporting'' = Some (JBool False)"
    unfolding h by blast
  from config_merge_is_recursive_overlay
         [OF dd, where k = "''owner''" and defaults = health_default_config
            and v = "JString ''ops''"] u3 d3
  have 3: "map_of (health_load_config (ConfigDocument ?doc)) ''owner'' = Some (JString ''ops'')"
    unfolding h by blast
  from config_merge_is_recursive_overlay
         [OF dd, where k = "''alerting''" and defaults = health_default_config] u4
  have 4: "map_of (health_load_config (ConfigDocument ?doc)) ''alerting'' =
      map_of health_default_config ''alerting''"
    unfolding h by blast
  from config_merge_is_recursive_overlay [OF ds]
  have 5: "load_config (ConfigDocument ?sdoc) = merge_config default_config ?sdoc" by blast
  from config_merge_is_recursive_overlay
         [OF ds, where k = "''video_extensions''" and defaults = default_config
            and v = "JArray [JString ''.mp4'']"] u5 n5
  have "map_of (merge_config default_config ?sdoc) ''video_extensions'' =
      Some (JArray [JString ''.mp4''])" by blast
  then have 6: "map_of (load_config (ConfigDocument ?sdoc)) ''video_extensions'' =
      Some (JArray [JString ''.mp4''])" unfolding 5 .
  from 1 2 3 4 5 6 show ?thesis by blast
qed

end
